theory Spec2Isabelle
  imports
    Complex_Main
    "HOL-Library.Multiset"
    "HOL-Library.Sublist"
    "HOL-Library.Char_ord"
    "HOL-Library.List_Lexorder"
begin

section \<open>The dashboard script app.py as functions on tables\<close>

text \<open>
  The program is one Streamlit script, run top to bottom on every interaction. A pandas
  DataFrame is modelled as the list of its rows in file order, a row as a record with one
  field per column the script reads. Conventions of the model, each a choice about the
  library and not about the script:
  \<^item> every cell holds a value (the record types have no missing value, so the
    skip-missing rules of \<open>sum\<close>, \<open>mean\<close>, \<open>idxmax\<close> and \<open>sort_values\<close> never apply);
  \<^item> counts are unbounded integers and rates are exact rationals (the 64-bit binary
    numbers of the library are not modelled);
  \<^item> a row label is the row's position (\<open>read_csv\<close> numbers the rows, and a boolean
    mask keeps labels unique).
\<close>

subsection \<open>Data model\<close>

record CountryRecord =
  iso_code :: string
  location :: string
  continent :: string
  total_cases :: int
  total_deaths :: int
  vaccination_rate :: rat
  mortality_rate :: rat
  population :: int

record TrendRecord =
  date :: string
  new_cases_smoothed :: rat
  prediction :: rat

text \<open>The exceptions the script's library calls raise.\<close>

datatype error = FileNotFoundError | KeyError string | IndexError | ValueError

subsection \<open>Sidebar: the continent options and the filter (lines 55 to 66)\<close>

text \<open>\<open>Series.unique()\<close>: the distinct values, in order of first appearance.\<close>

fun unique_from :: "'a list \<Rightarrow> 'a list \<Rightarrow> 'a list" where
  "unique_from seen [] = []"
| "unique_from seen (x # xs) =
     (if x \<in> set seen then unique_from seen xs else x # unique_from (x # seen) xs)"

definition unique :: "'a list \<Rightarrow> 'a list" where
  "unique xs = unique_from [] xs"

text \<open>\<open>all_continents = sorted(df_countries['continent'].unique())\<close>\<close>

definition all_continents :: "CountryRecord list \<Rightarrow> string list" where
  "all_continents df_countries = sort (unique (map continent df_countries))"

text \<open>
  \<open>if selected_continents: df_filtered = df_countries[df_countries['continent'].isin(selected_continents)]
  else: df_filtered = df_countries\<close>
\<close>

definition isin :: "string list \<Rightarrow> CountryRecord \<Rightarrow> bool" where
  "isin selected_continents r = (continent r \<in> set selected_continents)"

definition df_filtered :: "string list \<Rightarrow> CountryRecord list \<Rightarrow> CountryRecord list" where
  "df_filtered selected_continents df_countries =
     (if selected_continents \<noteq> [] then filter (isin selected_continents) df_countries
      else df_countries)"

subsection \<open>The four KPI values (lines 86 to 93)\<close>

text \<open>\<open>Series.sum()\<close>: a left-to-right accumulation from 0, so 0 on no rows.\<close>

definition series_sum :: "'a::monoid_add list \<Rightarrow> 'a" where
  "series_sum xs = foldl (+) 0 xs"

text \<open>\<open>Series.mean()\<close>: sum over count; on no rows the library gives NaN, here \<open>None\<close>.\<close>

definition series_mean :: "rat list \<Rightarrow> rat option" where
  "series_mean xs = (if xs = [] then None else Some (series_sum xs / of_nat (length xs)))"

text \<open>
  \<open>Series.idxmax()\<close>: the label of the first occurrence of the maximum; ValueError on an
  empty series.
\<close>

fun idxmax_scan :: "nat \<Rightarrow> int \<Rightarrow> nat \<Rightarrow> int list \<Rightarrow> nat" where
  "idxmax_scan best_i best_v i [] = best_i"
| "idxmax_scan best_i best_v i (x # xs) =
     (if best_v < x then idxmax_scan i x (Suc i) xs
      else idxmax_scan best_i best_v (Suc i) xs)"

definition idxmax :: "int list \<Rightarrow> error + nat" where
  "idxmax xs = (case xs of [] \<Rightarrow> Inl ValueError | x # rest \<Rightarrow> Inr (idxmax_scan 0 x 1 rest))"

text \<open>\<open>df.loc[label]\<close>: the row with that label, KeyError when there is none.\<close>

definition loc :: "'a list \<Rightarrow> nat \<Rightarrow> error + 'a" where
  "loc df label = (if label < length df then Inr (df ! label) else Inl (KeyError ''label''))"

text \<open>
  \<open>if not df_filtered.empty: top_country = df_filtered.loc[df_filtered['total_cases'].idxmax()]['location']
  else: top_country = "-"\<close>
\<close>

definition top_country :: "CountryRecord list \<Rightarrow> error + string" where
  "top_country df =
     (if df \<noteq> [] then
        (case idxmax (map total_cases df) of
           Inl e \<Rightarrow> Inl e
         | Inr label \<Rightarrow> (case loc df label of Inl e \<Rightarrow> Inl e | Inr row \<Rightarrow> Inr (location row)))
      else Inr ''-'')"

record kpis =
  kpi_total_cases :: int
  kpi_total_deaths :: int
  kpi_avg_vax_rate :: "rat option"
  kpi_top_country :: string

text \<open>Lines 86 to 93 in order; an exception of any line is the result.\<close>

definition summarize :: "CountryRecord list \<Rightarrow> error + kpis" where
  "summarize df =
     (let cases = series_sum (map total_cases df);
          deaths = series_sum (map total_deaths df);
          avg_vax_rate = series_mean (map vaccination_rate df)
      in case top_country df of
           Inl e \<Rightarrow> Inl e
         | Inr top_name \<Rightarrow>
             Inr \<lparr>kpi_total_cases = cases, kpi_total_deaths = deaths,
                  kpi_avg_vax_rate = avg_vax_rate, kpi_top_country = top_name\<rparr>)"

subsection \<open>The KPI tiles (lines 95 to 98)\<close>

text \<open>Python's number formatting, on the exact value: decimal digits of a natural number.\<close>

definition digit_char :: "nat \<Rightarrow> char" where
  "digit_char d = char_of (of_char (CHR ''0'') + d)"

fun show_nat :: "nat \<Rightarrow> string" where
  "show_nat n = (if n < 10 then [digit_char n] else show_nat (n div 10) @ [digit_char (n mod 10)])"

declare show_nat.simps [simp del]

text \<open>The \<open>,\<close> option: a comma before every group of three digits, counted from the right.\<close>

fun group_thousands :: "string \<Rightarrow> string" where
  "group_thousands ds =
     (if length ds \<le> 3 then ds
      else group_thousands (take (length ds - 3) ds) @ '','' @ drop (length ds - 3) ds)"

declare group_thousands.simps [simp del]

text \<open>Rounding to the nearest integer, a tie to the even one, as the \<open>f\<close> formats round.\<close>

definition round_half_even :: "rat \<Rightarrow> int" where
  "round_half_even x =
     (let lo = \<lfloor>x\<rfloor>; rest = x - of_int lo
      in if rest < 1 / 2 then lo
         else if 1 / 2 < rest then lo + 1
         else if even lo then lo else lo + 1)"

text \<open>\<open>f"{x:,.0f}"\<close>\<close>

definition fmt_comma_0f :: "rat \<Rightarrow> string" where
  "fmt_comma_0f x =
     (if x < 0 then ''-'' else []) @ group_thousands (show_nat (nat (round_half_even \<bar>x\<bar>)))"

text \<open>\<open>f"{x:.1f}"\<close>; a NaN (\<open>None\<close>) is printed as \<open>nan\<close>.\<close>

definition fmt_1f :: "rat option \<Rightarrow> string" where
  "fmt_1f v =
     (case v of
        None \<Rightarrow> ''nan''
      | Some x \<Rightarrow>
          (let tenths = nat (round_half_even (\<bar>x\<bar> * 10))
           in (if x < 0 then ''-'' else []) @ show_nat (tenths div 10) @ ''.''
              @ show_nat (tenths mod 10)))"

text \<open>What the page shows, in order. Charts carry the table they draw.\<close>

datatype refline = HLine "rat option" string | VLine "rat option" string

datatype element =
    PageConfig
  | Static string
  | ErrorBox string
  | Multiselect string "string list" "string list"
  | Metric string string string
  | Subheader string
  | LineChart "TrendRecord list"
  | InfoBox string
  | Selectbox string "string list"
  | Choropleth "CountryRecord list" string string
  | BarChart "CountryRecord list" string
  | Scatter "CountryRecord list" "refline list"

definition kpi_tiles :: "kpis \<Rightarrow> element list" where
  "kpi_tiles k =
     [Metric ''Total Cases (Selected)'' (fmt_comma_0f (of_int (kpi_total_cases k))) ''Cumulative'',
      Metric ''Total Deaths'' (fmt_comma_0f (of_int (kpi_total_deaths k))) ''Cumulative'',
      Metric ''Avg Vaccination Rate'' (fmt_1f (kpi_avg_vax_rate k) @ ''%'') ''Fully Vaccinated Pop'',
      Metric ''#1 Most Impacted'' (kpi_top_country k) ''Highest Cases'']"

subsection \<open>Model status (lines 142 to 144)\<close>

text \<open>\<open>df.iloc[i]\<close>: the row at a position, a negative one counted from the end.\<close>

definition iloc :: "'a list \<Rightarrow> int \<Rightarrow> error + 'a" where
  "iloc df i =
     (if 0 \<le> i \<and> i < int (length df) then Inr (df ! nat i)
      else if i < 0 \<and> - i \<le> int (length df) then Inr (df ! nat (int (length df) + i))
      else Inl IndexError)"

text \<open>
  \<open>last_row = df_trend.iloc[-1]; err = last_row['new_cases_smoothed'] - last_row['prediction']\<close>
\<close>

definition model_status_err :: "TrendRecord list \<Rightarrow> error + rat" where
  "model_status_err df_trend =
     (case iloc df_trend (- 1) of
        Inl e \<Rightarrow> Inl e
      | Inr last_row \<Rightarrow> Inr (new_cases_smoothed last_row - prediction last_row))"

subsection \<open>The metric selector and the top ten (lines 150 to 169)\<close>

text \<open>The options of the selector, \<open>col_map_metrics\<close> being the one chosen.\<close>

definition metric_options :: "string list" where
  "metric_options = [''total_cases'', ''total_deaths'', ''vaccination_rate'']"

text \<open>
  A column is looked up by its name: \<open>df[name]\<close>, row by row. The names are the
  columns the script reads.
\<close>

datatype cell = Num rat | Str string

definition column :: "string \<Rightarrow> (CountryRecord \<Rightarrow> cell) option" where
  "column name =
     (if name = ''iso_code'' then Some (\<lambda>r. Str (iso_code r))
      else if name = ''location'' then Some (\<lambda>r. Str (location r))
      else if name = ''continent'' then Some (\<lambda>r. Str (continent r))
      else if name = ''total_cases'' then Some (\<lambda>r. Num (of_int (total_cases r)))
      else if name = ''total_deaths'' then Some (\<lambda>r. Num (of_int (total_deaths r)))
      else if name = ''vaccination_rate'' then Some (\<lambda>r. Num (vaccination_rate r))
      else if name = ''mortality_rate'' then Some (\<lambda>r. Num (mortality_rate r))
      else if name = ''population'' then Some (\<lambda>r. Num (of_int (population r)))
      else None)"

text \<open>
  The order of the cells of a column: numbers by value, text by character codes. A column
  holds cells of one kind, so the two mixed cases never decide a comparison.
\<close>

fun cell_ge :: "cell \<Rightarrow> cell \<Rightarrow> bool" where
  "cell_ge (Num a) (Num b) = (b \<le> a)"
| "cell_ge (Str a) (Str b) = (b \<le> a)"
| "cell_ge (Num a) (Str b) = True"
| "cell_ge (Str a) (Num b) = False"

text \<open>
  The library's sorting routine is not part of the script. The script calls it with
  \<open>ascending=False\<close> and the default \<open>kind\<close> (\<open>quicksort\<close>), for which the library
  promises the rows back in descending order of the key and nothing about rows of equal
  key. It is a parameter \<open>srt\<close> of the model, and \<open>sorts_descending\<close> is that promise.
\<close>

type_synonym sorter = "(CountryRecord \<Rightarrow> cell) \<Rightarrow> CountryRecord list \<Rightarrow> CountryRecord list"

definition sorts_descending :: "sorter \<Rightarrow> bool" where
  "sorts_descending srt =
     (\<forall>key df. mset (srt key df) = mset df
        \<and> sorted_wrt (\<lambda>a b. cell_ge (key a) (key b)) (srt key df))"

text \<open>\<open>df.sort_values(by=name, ascending=False)\<close>: KeyError on a name that is no column.\<close>

definition sort_values :: "sorter \<Rightarrow> string \<Rightarrow> CountryRecord list \<Rightarrow> error + CountryRecord list" where
  "sort_values srt name df =
     (case column name of None \<Rightarrow> Inl (KeyError name) | Some key \<Rightarrow> Inr (srt key df))"

text \<open>\<open>df.head(n)\<close>\<close>

definition head :: "nat \<Rightarrow> 'a list \<Rightarrow> 'a list" where
  "head n df = take n df"

text \<open>\<open>top10 = df_filtered.sort_values(by=col_map_metrics, ascending=False).head(10)\<close>\<close>

definition top10 :: "sorter \<Rightarrow> string \<Rightarrow> CountryRecord list \<Rightarrow> error + CountryRecord list" where
  "top10 srt col_map_metrics df =
     (case sort_values srt col_map_metrics df of
        Inl e \<Rightarrow> Inl e
      | Inr by_metric \<Rightarrow> Inr (head 10 by_metric))"

text \<open>
  One routine that keeps the promise, used wherever a concrete table is evaluated: insertion
  into a descending list behind the rows of equal key, row after row in input order.
\<close>

fun insert_desc :: "('a \<Rightarrow> cell) \<Rightarrow> 'a \<Rightarrow> 'a list \<Rightarrow> 'a list" where
  "insert_desc key x [] = [x]"
| "insert_desc key x (y # ys) =
     (if cell_ge (key y) (key x) then y # insert_desc key x ys else x # y # ys)"

definition insertion_sort_desc :: "('a \<Rightarrow> cell) \<Rightarrow> 'a list \<Rightarrow> 'a list" where
  "insertion_sort_desc key df = fold (insert_desc key) df []"

subsection \<open>Reference lines of the bubble chart (lines 204 to 206)\<close>

definition reference_lines :: "CountryRecord list \<Rightarrow> refline list" where
  "reference_lines df =
     (if df \<noteq> [] then
        [HLine (series_mean (map mortality_rate df)) ''Avg Mortality'',
         VLine (series_mean (map vaccination_rate df)) ''Avg Vax Rate'']
      else [])"

subsection \<open>Sample tables\<close>

text \<open>Three rows shaped as the scenario of the specification, and a two-day trend.\<close>

definition demo_eu_100 :: CountryRecord where
  "demo_eu_100 = \<lparr>iso_code = ''DEU'', location = ''Germany'', continent = ''EU'',
     total_cases = 100, total_deaths = 5, vaccination_rate = 70, mortality_rate = 5,
     population = 1000\<rparr>"

definition demo_eu_50 :: CountryRecord where
  "demo_eu_50 = \<lparr>iso_code = ''FRA'', location = ''France'', continent = ''EU'',
     total_cases = 50, total_deaths = 1, vaccination_rate = 80, mortality_rate = 2,
     population = 900\<rparr>"

definition demo_as_200 :: CountryRecord where
  "demo_as_200 = \<lparr>iso_code = ''JPN'', location = ''Japan'', continent = ''AS'',
     total_cases = 200, total_deaths = 10, vaccination_rate = 151 / 2, mortality_rate = 5,
     population = 2000\<rparr>"

definition demo_table :: "CountryRecord list" where
  "demo_table = [demo_eu_100, demo_eu_50, demo_as_200]"

definition demo_trend :: "TrendRecord list" where
  "demo_trend = [\<lparr>date = ''2021-01-01'', new_cases_smoothed = 1000, prediction = 900\<rparr>,
                 \<lparr>date = ''2021-01-02'', new_cases_smoothed = 2401 / 2, prediction = 1300\<rparr>]"

text \<open>
  A second routine that keeps the same promise and puts a row in front of the rows of equal
  key, and a fourth sample row that ties with the first on total cases.
\<close>

fun insert_desc_front :: "('a \<Rightarrow> cell) \<Rightarrow> 'a \<Rightarrow> 'a list \<Rightarrow> 'a list" where
  "insert_desc_front key x [] = [x]"
| "insert_desc_front key x (y # ys) =
     (if cell_ge (key x) (key y) then x # y # ys else y # insert_desc_front key x ys)"

definition insertion_sort_desc_front :: "('a \<Rightarrow> cell) \<Rightarrow> 'a list \<Rightarrow> 'a list" where
  "insertion_sort_desc_front key df = fold (insert_desc_front key) df []"

definition demo_as_100 :: CountryRecord where
  "demo_as_100 = \<lparr>iso_code = ''KOR'', location = ''Korea'', continent = ''AS'',
     total_cases = 100, total_deaths = 3, vaccination_rate = 85, mortality_rate = 3,
     population = 500\<rparr>"

text \<open>
  Larger samples: a row made from a number, twenty rows that all tie on total cases, and
  twelve rows whose total cases are the numbers 0 to 11 in a mixed order.
\<close>

definition demo_row :: "nat \<Rightarrow> int \<Rightarrow> CountryRecord" where
  "demo_row n cases = \<lparr>iso_code = ''C'' @ show_nat n, location = ''Country '' @ show_nat n,
     continent = (if even n then ''EU'' else ''AS''), total_cases = cases,
     total_deaths = int n, vaccination_rate = of_nat n, mortality_rate = 1,
     population = 1000\<rparr>"

definition tied_table :: "CountryRecord list" where
  "tied_table = map (\<lambda>n. demo_row n 100) [0..<20]"


text \<open>
  Ties broken by input order, as a test on a ranking \<open>ys\<close> of a table \<open>df\<close>: the rows
  of \<open>ys\<close> with one key value are the first rows of \<open>df\<close> with that value, in the order
  of \<open>df\<close>.
\<close>

definition ties_in_input_order ::
  "(CountryRecord \<Rightarrow> cell) \<Rightarrow> CountryRecord list \<Rightarrow> CountryRecord list \<Rightarrow> bool" where
  "ties_in_input_order key df ys =
     (\<forall>v\<in>set (map key ys). prefix (filter (\<lambda>r. key r = v) ys) (filter (\<lambda>r. key r = v) df))"

subsection \<open>Loading the two files (lines 34 to 45)\<close>

text \<open>
  The files on disk, each present with its parsed table or absent, and the state of the
  process: the entry of the \<open>st.cache_data\<close> cache for \<open>load_data\<close> (the function takes
  no argument, so there is one entry) and a journal of the files read so far.
\<close>

record files =
  ml_global_prediction_csv :: "TrendRecord list option"
  country_insight_full_csv :: "CountryRecord list option"

record process =
  cache :: "(TrendRecord list \<times> CountryRecord list) option"
  reads :: "string list"

text \<open>\<open>pd.read_csv(name)\<close>: FileNotFoundError on an absent file.\<close>

definition read_csv :: "string \<Rightarrow> 'a option \<Rightarrow> process \<Rightarrow> (error + 'a) \<times> process" where
  "read_csv name file p =
     (case file of
        None \<Rightarrow> (Inl FileNotFoundError, p)
      | Some table \<Rightarrow> (Inr table, p\<lparr>reads := reads p @ [name]\<rparr>))"

text \<open>The body of \<open>load_data\<close>: the two reads in order, the first exception ending it.\<close>

definition load_data_body ::
  "files \<Rightarrow> process \<Rightarrow> (error + TrendRecord list \<times> CountryRecord list) \<times> process" where
  "load_data_body fs p =
     (case read_csv ''ml_global_prediction.csv'' (ml_global_prediction_csv fs) p of
        (Inl e, p1) \<Rightarrow> (Inl e, p1)
      | (Inr df_ml, p1) \<Rightarrow>
          (case read_csv ''country_insight_full.csv'' (country_insight_full_csv fs) p1 of
             (Inl e, p2) \<Rightarrow> (Inl e, p2)
           | (Inr df_countries, p2) \<Rightarrow> (Inr (df_ml, df_countries), p2)))"

text \<open>
  \<open>@st.cache_data def load_data()\<close>: a cached result is returned without running the body;
  otherwise the body runs, and its result is cached when it returns (an exception is not).
\<close>

definition load_data ::
  "files \<Rightarrow> process \<Rightarrow> (error + TrendRecord list \<times> CountryRecord list) \<times> process" where
  "load_data fs p =
     (case cache p of
        Some tables \<Rightarrow> (Inr tables, p)
      | None \<Rightarrow>
          (case load_data_body fs p of
             (Inl e, p1) \<Rightarrow> (Inl e, p1)
           | (Inr tables, p1) \<Rightarrow> (Inr tables, p1\<lparr>cache := Some tables\<rparr>)))"

subsection \<open>The whole script\<close>

text \<open>
  A run ends by reaching the last line, by \<open>st.stop()\<close>, or by an exception nobody catches;
  what was shown before stays on the page. Fixed texts are \<open>Static\<close> elements named by a
  tag.
\<close>

datatype outcome = Completed | Stopped | Raised error

definition page_setup :: "element list" where
  "page_setup = [PageConfig, Static ''style'']"

definition sidebar :: "CountryRecord list \<Rightarrow> element list" where
  "sidebar df_countries =
     [Static ''Control Panel'', Static ''filter hint'',
      Multiselect ''Select Continent'' (all_continents df_countries) (all_continents df_countries),
      Static ''divider'', InfoBox ''About Dashboard'']"

fun join :: "string \<Rightarrow> string list \<Rightarrow> string" where
  "join sep [] = []"
| "join sep [x] = x"
| "join sep (x # y # ys) = x @ sep @ join sep (y # ys)"

definition tab1_chart :: "TrendRecord list \<Rightarrow> element list" where
  "tab1_chart df_trend =
     [Subheader ''Global Trend Prediction (Random Forest Model)'', Static ''model note'',
      LineChart df_trend]"

definition tab2_head :: "string list \<Rightarrow> element list" where
  "tab2_head selected_continents =
     [Subheader (''COVID-19 Distribution Map (''
        @ (if selected_continents \<noteq> [] then join '', '' selected_continents
           else ''All Continents'') @ '')''),
      Selectbox ''Select Map Metric:'' metric_options]"

definition color_scale :: "string \<Rightarrow> string" where
  "color_scale col_map_metrics = (if col_map_metrics \<noteq> ''vaccination_rate'' then ''Reds'' else ''Greens'')"

definition tab3 :: "CountryRecord list \<Rightarrow> element list" where
  "tab3 df =
     [Subheader ''Correlation Analysis: Does Vaccination Lower Mortality?'', Static ''bubble note'',
      Scatter df (reference_lines df), Static ''How to Read'']"

text \<open>
  Lines 50 to 214, on the loaded tables. \<open>selected_continents\<close> and \<open>col_map_metrics\<close>
  are what the two widgets return. \<open>px.choropleth\<close> raises ValueError when its colour
  argument names no column.
\<close>

definition dashboard ::
  "sorter \<Rightarrow> TrendRecord list \<Rightarrow> CountryRecord list \<Rightarrow> string list \<Rightarrow> string
     \<Rightarrow> element list \<times> outcome" where
  "dashboard srt df_trend df_countries selected_continents col_map_metrics =
     (let df = df_filtered selected_continents df_countries;
          upto_kpis = sidebar df_countries @ [Static ''title'', Static ''intro'']
      in case summarize df of
           Inl e \<Rightarrow> (upto_kpis, Raised e)
         | Inr k \<Rightarrow>
             (let upto_status = upto_kpis @ kpi_tiles k @ [Static ''divider'', Static ''tabs'']
                    @ tab1_chart df_trend
              in case model_status_err df_trend of
                   Inl e \<Rightarrow> (upto_status, Raised e)
                 | Inr err \<Rightarrow>
                     (let upto_map = upto_status @ [InfoBox (fmt_comma_0f err)]
                            @ tab2_head selected_continents
                      in case column col_map_metrics of
                           None \<Rightarrow> (upto_map, Raised ValueError)
                         | Some c \<Rightarrow>
                             (let upto_bar = upto_map
                                    @ [Choropleth df col_map_metrics (color_scale col_map_metrics),
                                       Subheader ''Top 10 Countries in Selection'']
                              in case top10 srt col_map_metrics df of
                                   Inl e \<Rightarrow> (upto_bar, Raised e)
                                 | Inr ranked \<Rightarrow>
                                     (upto_bar @ [BarChart ranked col_map_metrics] @ tab3 df,
                                      Completed)))))"

text \<open>
  Lines 9 to 45 and then the dashboard: \<open>except FileNotFoundError: st.error(...); st.stop()\<close>.
\<close>

definition app ::
  "sorter \<Rightarrow> files \<Rightarrow> string list \<Rightarrow> string \<Rightarrow> process
     \<Rightarrow> (element list \<times> outcome) \<times> process" where
  "app srt fs selected_continents col_map_metrics p =
     (case load_data fs p of
        (Inl e, p1) \<Rightarrow>
          (if e = FileNotFoundError
           then ((page_setup @ [ErrorBox ''CSV files not found!''], Stopped), p1)
           else ((page_setup, Raised e), p1))
      | (Inr (df_trend, df_countries), p1) \<Rightarrow>
          (case dashboard srt df_trend df_countries selected_continents col_map_metrics of
             (shown, how) \<Rightarrow> ((page_setup @ shown, how), p1)))"

text \<open>The script run once per interaction, in one process.\<close>

fun reruns ::
  "sorter \<Rightarrow> files \<Rightarrow> (string list \<times> string) list \<Rightarrow> process
     \<Rightarrow> (element list \<times> outcome) list \<times> process" where
  "reruns srt fs [] p = ([], p)"
| "reruns srt fs ((selected_continents, col_map_metrics) # later) p =
     (case app srt fs selected_continents col_map_metrics p of
        (page, p1) \<Rightarrow> (case reruns srt fs later p1 of (pages, p2) \<Rightarrow> (page # pages, p2)))"

definition fresh_process :: process where
  "fresh_process = \<lparr>cache = None, reads = []\<rparr>"

definition demo_files :: files where
  "demo_files = \<lparr>ml_global_prediction_csv = Some demo_trend,
                  country_insight_full_csv = Some demo_table\<rparr>"

subsection \<open>Tables as objects\<close>

text \<open>
  A DataFrame is an object, and a variable holds a reference to it. Where the claim is about
  the object behind \<open>df_countries\<close>, the tables live in a store, and an operation that
  builds a DataFrame puts it at a new reference. With an empty selection \<open>df_filtered\<close> is
  the reference \<open>df_countries\<close> itself, not a copy.
\<close>

record store =
  frames :: "nat \<Rightarrow> CountryRecord list"
  next_ref :: nat

definition new_frame :: "CountryRecord list \<Rightarrow> store \<Rightarrow> nat \<times> store" where
  "new_frame rows s =
     (next_ref s, s\<lparr>frames := (frames s)(next_ref s := rows), next_ref := Suc (next_ref s)\<rparr>)"

definition df_filtered_ref :: "string list \<Rightarrow> nat \<Rightarrow> store \<Rightarrow> nat \<times> store" where
  "df_filtered_ref selected_continents df_countries s =
     (if selected_continents \<noteq> []
      then new_frame (filter (isin selected_continents) (frames s df_countries)) s
      else (df_countries, s))"

text \<open>\<open>sort_values\<close> without \<open>inplace\<close> and \<open>head\<close> each return a new DataFrame.\<close>

definition top10_ref :: "sorter \<Rightarrow> string \<Rightarrow> nat \<Rightarrow> store \<Rightarrow> (error + nat) \<times> store" where
  "top10_ref srt col_map_metrics df s =
     (case sort_values srt col_map_metrics (frames s df) of
        Inl e \<Rightarrow> (Inl e, s)
      | Inr by_metric \<Rightarrow>
          (case new_frame by_metric s of
             (sorted_ref, s1) \<Rightarrow>
               (case new_frame (head 10 (frames s1 sorted_ref)) s1 of
                  (top_ref, s2) \<Rightarrow> (Inr top_ref, s2))))"

text \<open>
  Lines 86 to 93 on a reference: the sums, the mean and the top country read the rows
  behind \<open>df\<close>; none of them builds or changes a DataFrame.
\<close>

definition summarize_ref :: "nat \<Rightarrow> store \<Rightarrow> (error + kpis) \<times> store" where
  "summarize_ref df s =
     (let cases = series_sum (map total_cases (frames s df));
          deaths = series_sum (map total_deaths (frames s df));
          avg_vax_rate = series_mean (map vaccination_rate (frames s df))
      in case top_country (frames s df) of
           Inl e \<Rightarrow> (Inl e, s)
         | Inr top_name \<Rightarrow>
             (Inr \<lparr>kpi_total_cases = cases, kpi_total_deaths = deaths,
                   kpi_avg_vax_rate = avg_vax_rate, kpi_top_country = top_name\<rparr>, s))"

text \<open>The rows behind the reference an operation returned.\<close>

definition filtered_rows :: "nat \<times> store \<Rightarrow> CountryRecord list" where
  "filtered_rows res = frames (snd res) (fst res)"

definition ranked_rows :: "(error + nat) \<times> store \<Rightarrow> error + CountryRecord list" where
  "ranked_rows res =
     (case fst res of Inl e \<Rightarrow> Inl e | Inr top_ref \<Rightarrow> Inr (frames (snd res) top_ref))"

text \<open>A second store, holding the sample table at another reference among other tables.\<close>

definition demo_store_copy :: store where
  "demo_store_copy =
     \<lparr>frames = (\<lambda>r. if r = 3 then demo_table else [demo_as_100]), next_ref = 7\<rparr>"

text \<open>Sample files with the country table absent, and a store holding the sample table.\<close>

definition demo_files_no_countries :: files where
  "demo_files_no_countries = \<lparr>ml_global_prediction_csv = Some demo_trend,
                  country_insight_full_csv = None\<rparr>"

definition demo_store :: store where
  "demo_store = \<lparr>frames = (\<lambda>r. if r = 0 then demo_table else []), next_ref = 1\<rparr>"

section \<open>Properties\<close>

subsection \<open>The filter\<close>

lemma set_unique_from: "set (unique_from seen xs) = set xs - set seen"
  by (induction xs arbitrary: seen) auto

lemma set_unique: "set (unique xs) = set xs"
  by (simp add: unique_def set_unique_from)

lemma set_all_continents: "set (all_continents df) = continent ` set df"
  by (simp add: all_continents_def set_unique)

lemma filter_all_continents: "filter (isin (all_continents df)) df = df"
  by (rule filter_True) (simp add: isin_def set_all_continents)

lemma df_filtered_all_continents: "df_filtered (all_continents df) df = df"
  by (simp add: df_filtered_def filter_all_continents)

lemma distinct_unique_from: "distinct (unique_from seen xs)"
  by (induction xs arbitrary: seen) (auto simp: set_unique_from)

lemma all_continents_distinct_sorted:
  "distinct (all_continents df) \<and> sorted (all_continents df)"
  by (simp add: all_continents_def unique_def distinct_unique_from)

text \<open>
  Claim C1. With no continent selected the filter returns the whole table, and the four
  summary values (both sums, the mean vaccination rate, the top country) computed from it
  are those computed after selecting every continent that occurs in the table.
\<close>

theorem empty_selection_is_full_selection:
  "df_filtered [] df = df
   \<and> summarize (df_filtered [] df) = summarize (df_filtered (all_continents df) df)"
  by (simp add: df_filtered_all_continents) (simp add: df_filtered_def)

subsection \<open>Sums and the first maximum\<close>

lemma foldl_plus_sum_list: "foldl (+) a xs = a + sum_list xs" for a :: "'a::comm_monoid_add"
  by (induction xs arbitrary: a) (simp_all add: ac_simps)

lemma series_sum_sum_list: "series_sum xs = sum_list xs" for xs :: "'a::comm_monoid_add list"
  by (simp add: series_sum_def foldl_plus_sum_list)

lemma index_set_snoc:
  "{i. i < Suc (length xs) \<and> P ((xs @ [x]) ! i)}
     = {i. i < length xs \<and> P (xs ! i)} \<union> (if P x then {length xs} else {})"
  by (auto simp: nth_append less_Suc_eq)

lemma sum_list_filter_index:
  "sum_list (map f (filter P xs)) = (\<Sum>i | i < length xs \<and> P (xs ! i). f (xs ! i))"
  for f :: "'a \<Rightarrow> int"
proof (induction xs rule: rev_induct)
  case Nil
  show ?case by simp
next
  case (snoc x xs)
  have fin: "finite {i. i < length xs \<and> P (xs ! i)}" by simp
  have notin: "length xs \<notin> {i. i < length xs \<and> P (xs ! i)}" by simp
  have same: "(\<Sum>i | i < length xs \<and> P (xs ! i). f ((xs @ [x]) ! i))
                = (\<Sum>i | i < length xs \<and> P (xs ! i). f (xs ! i))"
    by (rule sum.cong) (simp_all add: nth_append)
  show ?case
  proof (cases "P x")
    case True
    then show ?thesis
      using snoc.IH fin notin same by (simp add: index_set_snoc)
  next
    case False
    then show ?thesis
      using snoc.IH same by (simp add: index_set_snoc)
  qed
qed

lemma idxmax_scan_first_max:
  assumes "length pre = i" "best_i < i" "best_v = pre ! best_i"
    and "\<forall>j<i. pre ! j \<le> best_v" and "\<forall>j<best_i. pre ! j < best_v"
  shows "idxmax_scan best_i best_v i xs < length (pre @ xs)
       \<and> (\<forall>j<length (pre @ xs). (pre @ xs) ! j \<le> (pre @ xs) ! idxmax_scan best_i best_v i xs)
       \<and> (\<forall>j<idxmax_scan best_i best_v i xs. (pre @ xs) ! j < (pre @ xs) ! idxmax_scan best_i best_v i xs)"
  using assms
proof (induction xs arbitrary: pre i best_i best_v)
  case Nil
  then show ?case by simp
next
  case (Cons x xs)
  let ?pre = "pre @ [x]"
  have len: "length ?pre = Suc i" using Cons.prems(1) by simp
  show ?case
  proof (cases "best_v < x")
    case True
    have a: "i < Suc i" by simp
    have b: "x = ?pre ! i" using Cons.prems(1) by (simp add: nth_append)
    have c: "\<forall>j<Suc i. ?pre ! j \<le> x"
      using Cons.prems True by (auto simp: nth_append less_Suc_eq)
    have d: "\<forall>j<i. ?pre ! j < x"
      using Cons.prems True by (auto simp: nth_append)
    from Cons.IH[OF len a b c d] True show ?thesis by simp
  next
    case False
    have a: "best_i < Suc i" using Cons.prems(2) by simp
    have b: "best_v = ?pre ! best_i" using Cons.prems by (simp add: nth_append)
    have c: "\<forall>j<Suc i. ?pre ! j \<le> best_v"
      using Cons.prems False by (auto simp: nth_append less_Suc_eq)
    have d: "\<forall>j<best_i. ?pre ! j < best_v"
      using Cons.prems by (auto simp: nth_append)
    from Cons.IH[OF len a b c d] False show ?thesis by simp
  qed
qed

lemma idxmax_first_max:
  assumes "xs \<noteq> []"
  obtains k where "idxmax xs = Inr k" "k < length xs"
    "\<forall>j<length xs. xs ! j \<le> xs ! k" "\<forall>j<k. xs ! j < xs ! k"
proof -
  from assms obtain x rest where xs: "xs = x # rest" by (cases xs) auto
  have "idxmax_scan 0 x 1 rest < length ([x] @ rest)
       \<and> (\<forall>j<length ([x] @ rest). ([x] @ rest) ! j \<le> ([x] @ rest) ! idxmax_scan 0 x 1 rest)
       \<and> (\<forall>j<idxmax_scan 0 x 1 rest. ([x] @ rest) ! j < ([x] @ rest) ! idxmax_scan 0 x 1 rest)"
    by (rule idxmax_scan_first_max) simp_all
  then show ?thesis using that[of "idxmax_scan 0 x 1 rest"] xs by (simp add: idxmax_def)
qed

lemma top_country_nonempty:
  assumes "df \<noteq> []"
  obtains k where "k < length df" "top_country df = Inr (location (df ! k))"
    "\<forall>j<length df. total_cases (df ! j) \<le> total_cases (df ! k)"
    "\<forall>j<k. total_cases (df ! j) < total_cases (df ! k)"
proof -
  from assms have ne: "map total_cases df \<noteq> []" by simp
  obtain k where k: "idxmax (map total_cases df) = Inr k" "k < length (map total_cases df)"
    "\<forall>j<length (map total_cases df). map total_cases df ! j \<le> map total_cases df ! k"
    "\<forall>j<k. map total_cases df ! j < map total_cases df ! k"
    using idxmax_first_max[OF ne] by blast
  from k(2) have kl: "k < length df" by simp
  have "top_country df = Inr (location (df ! k))"
    using assms k(1) kl by (simp add: top_country_def loc_def)
  moreover have "\<forall>j<length df. total_cases (df ! j) \<le> total_cases (df ! k)"
    using k(3) kl by simp
  moreover have "\<forall>j<k. total_cases (df ! j) < total_cases (df ! k)"
    using k(4) kl by simp
  ultimately show ?thesis using that kl by blast
qed

lemma top_country_empty: "top_country [] = Inr ''-''"
  by (simp add: top_country_def)

lemmas demo_defs = demo_table_def demo_eu_100_def demo_eu_50_def demo_as_200_def

lemma summarize_Inr:
  "\<exists>t. top_country df = Inr t
     \<and> summarize df = Inr \<lparr>kpi_total_cases = sum_list (map total_cases df),
          kpi_total_deaths = sum_list (map total_deaths df),
          kpi_avg_vax_rate = series_mean (map vaccination_rate df), kpi_top_country = t\<rparr>"
proof (cases "df = []")
  case True
  then show ?thesis by (simp add: summarize_def top_country_empty series_sum_sum_list)
next
  case False
  show ?thesis
  proof (rule top_country_nonempty[OF False])
    fix k
    assume "top_country df = Inr (location (df ! k))"
    then show ?thesis by (simp add: summarize_def series_sum_sum_list)
  qed
qed

lemma top_country_is_max:
  assumes "df \<noteq> []"
  shows "\<exists>r\<in>set df. top_country df = Inr (location r)
            \<and> (\<forall>q\<in>set df. total_cases q \<le> total_cases r)"
proof (rule top_country_nonempty[OF assms])
  fix k
  assume k: "k < length df" "top_country df = Inr (location (df ! k))"
    "\<forall>j<length df. total_cases (df ! j) \<le> total_cases (df ! k)"
  have mx: "\<forall>q\<in>set df. total_cases q \<le> total_cases (df ! k)"
  proof
    fix q assume "q \<in> set df"
    then obtain j where "j < length df" "q = df ! j" by (auto simp: in_set_conv_nth)
    with k(3) show "total_cases q \<le> total_cases (df ! k)" by simp
  qed
  have "df ! k \<in> set df" using k(1) by simp
  with k(2) mx show ?thesis by (intro bexI[of _ "df ! k"] conjI)
qed

text \<open>
  Claim C4. With a non-empty selection, the summary of the filtered table never raises; its
  sum of total cases is the sum over exactly the rows of the table whose continent is
  selected, and, when some row is selected, its top country is the location of a selected
  row whose total cases no selected row exceeds. On the three rows (EU, 100, 5),
  (EU, 50, 1), (AS, 200, 10), whatever their other columns hold, selecting EU gives the sum
  150 and the row with 100 as top country, and selecting nothing gives 350 and the AS row.
\<close>

theorem filter_then_summarize:
  fixes e1 e2 a1 :: CountryRecord
    and i1 i2 i3 l1 l2 l3 :: string and v1 v2 v3 m1 m2 m3 :: rat and p1 p2 p3 :: int
  defines "e1 \<equiv> \<lparr>iso_code = i1, location = l1, continent = ''EU'', total_cases = 100,
      total_deaths = 5, vaccination_rate = v1, mortality_rate = m1, population = p1\<rparr>"
    and "e2 \<equiv> \<lparr>iso_code = i2, location = l2, continent = ''EU'', total_cases = 50,
      total_deaths = 1, vaccination_rate = v2, mortality_rate = m2, population = p2\<rparr>"
    and "a1 \<equiv> \<lparr>iso_code = i3, location = l3, continent = ''AS'', total_cases = 200,
      total_deaths = 10, vaccination_rate = v3, mortality_rate = m3, population = p3\<rparr>"
  shows "(sel \<noteq> [] \<longrightarrow>
           (\<exists>k. summarize (df_filtered sel df) = Inr k
              \<and> kpi_total_cases k
                  = (\<Sum>i | i < length df \<and> continent (df ! i) \<in> set sel. total_cases (df ! i))
              \<and> ((\<exists>r\<in>set df. continent r \<in> set sel) \<longrightarrow>
                   (\<exists>r\<in>set df. continent r \<in> set sel \<and> kpi_top_country k = location r
                      \<and> (\<forall>q\<in>set df. continent q \<in> set sel \<longrightarrow> total_cases q \<le> total_cases r)))))
       \<and> (\<exists>k. summarize (df_filtered [''EU''] [e1, e2, a1]) = Inr k
              \<and> kpi_total_cases k = 150 \<and> kpi_top_country k = location e1)
       \<and> (\<exists>k. summarize (df_filtered [] [e1, e2, a1]) = Inr k
              \<and> kpi_total_cases k = 350 \<and> kpi_top_country k = location a1)"
proof (intro conjI impI)
  assume sel: "sel \<noteq> []"
  let ?fd = "df_filtered sel df"
  have fd: "?fd = filter (isin sel) df" using sel by (simp add: df_filtered_def)
  from summarize_Inr[of ?fd] obtain t where ts: "top_country ?fd = Inr t
     \<and> summarize ?fd = Inr \<lparr>kpi_total_cases = sum_list (map total_cases ?fd),
          kpi_total_deaths = sum_list (map total_deaths ?fd),
          kpi_avg_vax_rate = series_mean (map vaccination_rate ?fd), kpi_top_country = t\<rparr>" ..
  note t = ts[THEN conjunct1] and s = ts[THEN conjunct2]
  have total: "sum_list (map total_cases ?fd)
      = (\<Sum>i | i < length df \<and> continent (df ! i) \<in> set sel. total_cases (df ! i))"
    unfolding fd using sum_list_filter_index[of total_cases "isin sel" df]
    by (simp add: isin_def)
  have top: "\<exists>r\<in>set df. continent r \<in> set sel \<and> t = location r
      \<and> (\<forall>q\<in>set df. continent q \<in> set sel \<longrightarrow> total_cases q \<le> total_cases r)"
    if "\<exists>r\<in>set df. continent r \<in> set sel"
  proof -
    from that have "?fd \<noteq> []" unfolding fd by (auto simp: filter_empty_conv isin_def)
    from top_country_is_max[OF this] t show ?thesis
      unfolding fd by (auto simp: isin_def)
  qed
  show "\<exists>k. summarize ?fd = Inr k
     \<and> kpi_total_cases k
         = (\<Sum>i | i < length df \<and> continent (df ! i) \<in> set sel. total_cases (df ! i))
     \<and> ((\<exists>r\<in>set df. continent r \<in> set sel) \<longrightarrow>
          (\<exists>r\<in>set df. continent r \<in> set sel \<and> kpi_top_country k = location r
             \<and> (\<forall>q\<in>set df. continent q \<in> set sel \<longrightarrow> total_cases q \<le> total_cases r)))"
    using s total top by simp
next
  show "\<exists>k. summarize (df_filtered [''EU''] [e1, e2, a1]) = Inr k
      \<and> kpi_total_cases k = 150 \<and> kpi_top_country k = location e1"
    by (simp add: e1_def e2_def a1_def df_filtered_def isin_def summarize_def series_sum_def
        top_country_def idxmax_def loc_def)
next
  show "\<exists>k. summarize (df_filtered [] [e1, e2, a1]) = Inr k
      \<and> kpi_total_cases k = 350 \<and> kpi_top_country k = location a1"
    by (simp add: e1_def e2_def a1_def df_filtered_def isin_def summarize_def series_sum_def
        top_country_def idxmax_def loc_def)
qed


theorem filter_then_summarize_witness:
  "[''EU''] \<noteq> ([] :: string list)
   \<and> (\<exists>r\<in>set demo_table. continent r \<in> set [''EU''])
   \<and> (\<Sum>i | i < length demo_table \<and> continent (demo_table ! i) \<in> set [''EU''].
         total_cases (demo_table ! i)) = 150
   \<and> (\<exists>r\<in>set demo_table. continent r \<in> set [''EU''] \<and> ''Germany'' = location r
         \<and> (\<forall>q\<in>set demo_table. continent q \<in> set [''EU''] \<longrightarrow> total_cases q \<le> total_cases r))"
proof -
  have ne: "[''EU''] \<noteq> ([] :: string list)" by simp
  have ex: "\<exists>r\<in>set demo_table. continent r \<in> set [''EU'']" by (simp add: demo_defs)
  have ev: "summarize (df_filtered [''EU''] demo_table)
      = Inr \<lparr>kpi_total_cases = 150, kpi_total_deaths = 6, kpi_avg_vax_rate = Some 75,
             kpi_top_country = ''Germany''\<rparr>"
    by (simp add: demo_defs df_filtered_def isin_def summarize_def series_sum_def
        series_mean_def top_country_def idxmax_def loc_def)
  from filter_then_summarize[where sel = "[''EU'']" and df = demo_table] ne ex ev
  show ?thesis by simp
qed

subsection \<open>The empty table\<close>

lemma fmt_comma_0f_zero: "fmt_comma_0f 0 = ''0''"
  by code_simp

text \<open>
  Claim C3, on the empty table. The summary does not raise: the top country is the
  sentinel \<open>-\<close>, both sums are 0 and their tiles read \<open>0\<close>, the mean vaccination
  rate is undefined, and the bubble chart gets no reference line. The tile of the mean,
  which line 97 formats with no guard, reads \<open>nan%\<close> where the claim has the sentinel
  \<open>-\<close> that line 93 gives the top country.
\<close>

theorem empty_filtered_set_summary:
  "summarize [] = Inr \<lparr>kpi_total_cases = 0, kpi_total_deaths = 0, kpi_avg_vax_rate = None,
       kpi_top_country = ''-''\<rparr>
   \<and> kpi_tiles \<lparr>kpi_total_cases = 0, kpi_total_deaths = 0, kpi_avg_vax_rate = None,
       kpi_top_country = ''-''\<rparr>
     = [Metric ''Total Cases (Selected)'' ''0'' ''Cumulative'',
        Metric ''Total Deaths'' ''0'' ''Cumulative'',
        Metric ''Avg Vaccination Rate'' ''nan%'' ''Fully Vaccinated Pop'',
        Metric ''#1 Most Impacted'' ''-'' ''Highest Cases'']
   \<and> reference_lines [] = []"
  by (simp add: summarize_def series_sum_def series_mean_def top_country_def kpi_tiles_def
      fmt_1f_def fmt_comma_0f_zero reference_lines_def)

text \<open>The third tile of the empty summary is not the sentinel.\<close>

lemma empty_mean_tile_not_sentinel:
  "kpi_tiles \<lparr>kpi_total_cases = 0, kpi_total_deaths = 0, kpi_avg_vax_rate = None,
       kpi_top_country = ''-''\<rparr> ! 2
     = Metric ''Avg Vaccination Rate'' ''nan%'' ''Fully Vaccinated Pop''
   \<and> ''nan%'' \<noteq> ''-''"
  by (simp add: kpi_tiles_def fmt_1f_def)

subsection \<open>Selections made from the offered continents\<close>

text \<open>
  Claim C9. The selector offers \<open>all_continents\<close>, which holds each continent of the
  table once and nothing else, so a selection is a part of it. Then a non-empty table gives
  a non-empty filtered table, whether the selection is empty or not, and neither empty-table
  branch is taken: the top country is the location of a filtered row and both reference
  lines are drawn.
\<close>

theorem nonempty_table_nonempty_filtered:
  assumes "df \<noteq> []" and "set sel \<subseteq> set (all_continents df)"
  shows "set (all_continents df) = continent ` set df \<and> distinct (all_continents df)
       \<and> df_filtered sel df \<noteq> []
       \<and> (\<exists>r\<in>set (df_filtered sel df). top_country (df_filtered sel df) = Inr (location r))
       \<and> reference_lines (df_filtered sel df)
          = [HLine (series_mean (map mortality_rate (df_filtered sel df))) ''Avg Mortality'',
             VLine (series_mean (map vaccination_rate (df_filtered sel df))) ''Avg Vax Rate'']"
proof -
  have ne: "df_filtered sel df \<noteq> []"
  proof (cases "sel = []")
    case True
    then show ?thesis using assms(1) by (simp add: df_filtered_def)
  next
    case False
    then obtain c where "c \<in> set sel" by (cases sel) auto
    with assms(2) have "c \<in> continent ` set df" by (auto simp: set_all_continents)
    then obtain r where "r \<in> set df" "continent r = c" by auto
    with \<open>c \<in> set sel\<close> have "r \<in> set (filter (isin sel) df)" by (simp add: isin_def)
    then have "filter (isin sel) df \<noteq> []" by (metis empty_iff empty_set)
    with False show ?thesis by (simp add: df_filtered_def)
  qed
  from top_country_is_max[OF ne]
  have "\<exists>r\<in>set (df_filtered sel df). top_country (df_filtered sel df) = Inr (location r)"
    by (elim bexE conjE) (rule bexI)
  with ne show ?thesis
    by (simp add: reference_lines_def set_all_continents all_continents_distinct_sorted)
qed

theorem nonempty_table_nonempty_filtered_witness:
  "demo_table \<noteq> [] \<and> set [''AS''] \<subseteq> set (all_continents demo_table)
   \<and> df_filtered [''AS''] demo_table \<noteq> []
   \<and> top_country (df_filtered [''AS''] demo_table) = Inr ''Japan''
   \<and> reference_lines (df_filtered [''AS''] demo_table)
      = [HLine (Some 5) ''Avg Mortality'', VLine (Some (151 / 2)) ''Avg Vax Rate'']"
proof -
  have h1: "demo_table \<noteq> []" by (simp add: demo_defs)
  have h2: "set [''AS''] \<subseteq> set (all_continents demo_table)"
    by (simp add: set_all_continents demo_defs)
  have ev: "df_filtered [''AS''] demo_table = [demo_as_200]"
    by (simp add: demo_defs df_filtered_def isin_def)
  have top: "top_country [demo_as_200] = Inr ''Japan''"
    by (simp add: demo_defs top_country_def idxmax_def loc_def)
  have mean: "series_mean [mortality_rate demo_as_200] = Some 5"
     "series_mean [vaccination_rate demo_as_200] = Some (151 / 2)"
    by (simp_all add: demo_defs series_mean_def series_sum_def)
  from nonempty_table_nonempty_filtered[OF h1 h2] h1 h2 show ?thesis
    by (simp add: ev top mean)
qed

subsection \<open>Model status\<close>

lemma model_status_err_last:
  assumes "df_trend \<noteq> []"
  shows "model_status_err df_trend
        = Inr (new_cases_smoothed (last df_trend) - prediction (last df_trend))"
proof -
  from assms have "0 < length df_trend" by simp
  then have "iloc df_trend (- 1) = Inr (df_trend ! (length df_trend - 1))"
    by (simp add: iloc_def nat_diff_distrib' Suc_leI)
  then show ?thesis using assms by (simp add: model_status_err_def last_conv_nth)
qed

text \<open>
  Claim C10. The model status reads the last row of the trend table with no guard: on a
  non-empty table it is that row's smoothed new cases minus its prediction, and on an empty
  table the positional access raises IndexError.
\<close>

theorem model_status_reads_last_row:
  "(df_trend \<noteq> [] \<longrightarrow>
      model_status_err df_trend
        = Inr (new_cases_smoothed (last df_trend) - prediction (last df_trend)))
   \<and> model_status_err [] = Inl IndexError"
  by (simp add: model_status_err_last) (simp add: model_status_err_def iloc_def)

theorem model_status_reads_last_row_witness:
  "demo_trend \<noteq> [] \<and> model_status_err demo_trend = Inr (- 199 / 2)"
  using model_status_reads_last_row[where df_trend = demo_trend]
  by (simp add: demo_trend_def)

subsection \<open>The top ten\<close>

lemma cell_ge_total: "cell_ge a b \<or> cell_ge b a"
  by (cases a; cases b) auto

lemma cell_ge_trans: "cell_ge a b \<Longrightarrow> cell_ge b c \<Longrightarrow> cell_ge a c"
  by (cases a; cases b; cases c) auto

lemma mset_insert_desc: "mset (insert_desc key x ys) = add_mset x (mset ys)"
  by (induction ys) simp_all

lemma set_insert_desc: "set (insert_desc key x ys) = insert x (set ys)"
  by (induction ys) auto

lemma sorted_insert_desc:
  "sorted_wrt (\<lambda>a b. cell_ge (key a) (key b)) ys
   \<Longrightarrow> sorted_wrt (\<lambda>a b. cell_ge (key a) (key b)) (insert_desc key x ys)"
proof (induction ys)
  case Nil
  show ?case by simp
next
  case (Cons y ys)
  show ?case
  proof (cases "cell_ge (key y) (key x)")
    case True
    with Cons show ?thesis by (auto simp: set_insert_desc)
  next
    case False
    then have xy: "cell_ge (key x) (key y)" using cell_ge_total by blast
    have "\<forall>z\<in>set ys. cell_ge (key x) (key z)"
      using Cons.prems xy cell_ge_trans by auto
    with Cons.prems xy False show ?thesis by simp
  qed
qed

lemma fold_insert_desc:
  "mset (fold (insert_desc key) xs acc) = mset xs + mset acc
   \<and> (sorted_wrt (\<lambda>a b. cell_ge (key a) (key b)) acc
        \<longrightarrow> sorted_wrt (\<lambda>a b. cell_ge (key a) (key b)) (fold (insert_desc key) xs acc))"
  by (induction xs arbitrary: acc) (simp_all add: mset_insert_desc sorted_insert_desc)

lemma insertion_sort_desc_sorts: "sorts_descending insertion_sort_desc"
  by (simp add: sorts_descending_def insertion_sort_desc_def fold_insert_desc)






lemma column_metric_options:
  "column ''total_cases'' = Some (\<lambda>r. Num (of_int (total_cases r)))"
  "column ''total_deaths'' = Some (\<lambda>r. Num (of_int (total_deaths r)))"
  "column ''vaccination_rate'' = Some (\<lambda>r. Num (vaccination_rate r))"
  by (simp_all add: column_def)

lemma top10_column:
  "top10 srt m df = (case column m of None \<Rightarrow> Inl (KeyError m) | Some key \<Rightarrow> Inr (take 10 (srt key df)))"
  by (simp add: top10_def sort_values_def head_def split: option.split)

lemma top10_demo_total_cases:
  "top10 insertion_sort_desc ''total_cases'' demo_table
     = Inr [demo_as_200, demo_eu_100, demo_eu_50]"
  by (simp add: top10_column column_metric_options insertion_sort_desc_def demo_defs)



lemma tied_stable:
  "top10 insertion_sort_desc ''total_cases'' tied_table = Inr (take 10 tied_table)
   \<and> ties_in_input_order (\<lambda>r. Num (of_int (total_cases r))) tied_table (take 10 tied_table)"
  by code_simp





text \<open>
  A ranking is a reordering of the rows and in general no subsequence of the table in
  input order: of two rows with 50 and 200 cases it is the second, then the first, with
  every routine.
\<close>

lemma top10_reorders_rows:
  "sorts_descending insertion_sort_desc
   \<and> top10 insertion_sort_desc ''total_cases'' (df_filtered [] [demo_eu_50, demo_as_200])
       = Inr [demo_as_200, demo_eu_50]
   \<and> \<not> subseq [demo_as_200, demo_eu_50] (df_filtered [] [demo_eu_50, demo_as_200])"
proof -
  have ne: "demo_as_200 \<noteq> demo_eu_50" by (simp add: demo_defs)
  have "top10 insertion_sort_desc ''total_cases'' [demo_eu_50, demo_as_200]
       = Inr [demo_as_200, demo_eu_50]"
    by (simp add: top10_column column_metric_options insertion_sort_desc_def demo_defs)
  moreover have "\<not> subseq [demo_as_200, demo_eu_50] [demo_eu_50, demo_as_200]"
    using ne by (simp add: subseq_Cons2_iff)
  ultimately show ?thesis
    by (simp add: df_filtered_def insertion_sort_desc_sorts)
qed

lemma mset_pair_cases:
  assumes "mset xs = {#a, b#}"
  shows "xs = [a, b] \<or> xs = [b, a]"
proof -
  from assms have "length xs = 2" by (metis mset_eq_length length_Cons list.size(3) mset.simps(1,2) numeral_2_eq_2)
  then obtain x y where xs: "xs = [x, y]"
    by (metis (no_types, opaque_lifting) One_nat_def Suc_1 length_0_conv length_Suc_conv)
  with assms have "{#x, y#} = {#a, b#}" by simp
  then show ?thesis unfolding xs by (auto simp: add_eq_conv_diff)
qed

lemma top10_two_rows_any_sorter:
  assumes "sorts_descending srt"
  shows "top10 srt ''total_cases'' [demo_eu_50, demo_as_200] = Inr [demo_as_200, demo_eu_50]"
proof -
  let ?key = "\<lambda>r. Num (of_int (total_cases r))"
  let ?s = "srt ?key [demo_eu_50, demo_as_200]"
  have spec: "mset (srt k d) = mset d \<and> sorted_wrt (\<lambda>a b. cell_ge (k a) (k b)) (srt k d)"
    for k d using assms by (simp add: sorts_descending_def)
  have srtd: "sorted_wrt (\<lambda>a b. cell_ge (?key a) (?key b)) ?s"
    by (rule spec[THEN conjunct2])
  have unsorted: "\<not> sorted_wrt (\<lambda>a b. cell_ge (?key a) (?key b)) [demo_eu_50, demo_as_200]"
    by (simp add: demo_defs)
  have "mset ?s = {#demo_eu_50, demo_as_200#}"
    using spec[THEN conjunct1, of ?key "[demo_eu_50, demo_as_200]"] by simp
  then have "?s = [demo_eu_50, demo_as_200] \<or> ?s = [demo_as_200, demo_eu_50]"
    by (rule mset_pair_cases)
  then have "?s = [demo_as_200, demo_eu_50]"
  proof
    assume "?s = [demo_eu_50, demo_as_200]"
    with srtd unsorted show ?thesis by simp
  qed
  then show ?thesis by (simp add: top10_column column_metric_options)
qed

lemma tie_order_depends_on_sorter:
  "top10 insertion_sort_desc ''total_cases'' [demo_eu_100, demo_as_100]
     = Inr [demo_eu_100, demo_as_100]
   \<and> top10 insertion_sort_desc_front ''total_cases'' [demo_eu_100, demo_as_100]
     = Inr [demo_as_100, demo_eu_100]"
  by (simp add: top10_column column_metric_options insertion_sort_desc_def
      insertion_sort_desc_front_def demo_defs demo_as_100_def)

subsection \<open>Metric names\<close>

lemma dashboard_outcome:
  assumes "df_trend \<noteq> []"
  shows "snd (dashboard srt df_trend df_countries sel name)
     = (case column name of None \<Rightarrow> Raised ValueError | Some c \<Rightarrow> Completed)"
proof -
  from summarize_Inr[of "df_filtered sel df_countries"]
  obtain k where k: "summarize (df_filtered sel df_countries) = Inr k" by (elim exE conjE)
  note ms = model_status_err_last[OF assms]
  show ?thesis
    by (simp add: dashboard_def Let_def k ms top10_column split: option.splits)
qed

lemma dashboard_bar_chart:
  assumes "df_trend \<noteq> []" and "top10 srt m (df_filtered sel df_countries) = Inr ranked"
  shows "BarChart ranked m \<in> set (fst (dashboard srt df_trend df_countries sel m))"
proof -
  from summarize_Inr[of "df_filtered sel df_countries"]
  obtain k where k: "summarize (df_filtered sel df_countries) = Inr k" by (elim exE conjE)
  note ms = model_status_err_last[OF assms(1)]
  from assms(2) obtain c where c: "column m = Some c"
    by (cases "column m") (simp_all add: top10_column)
  show ?thesis
    by (simp add: dashboard_def Let_def k ms c assms(2))
qed

text \<open>
  The selector offers three names; each of them ranks without an exception and, on a
  non-empty trend table, lets the script run to its end. The script itself checks no name:
  what a name of no column meets is the library's KeyError in the ranking and, in the
  script, ValueError at the map, which is drawn first.
\<close>

lemma metric_names_and_columns:
  "(\<forall>m\<in>set metric_options. (\<exists>ys. top10 srt m df = Inr ys)
        \<and> (df_trend \<noteq> [] \<longrightarrow> snd (dashboard srt df_trend df sel m) = Completed))
   \<and> (column name = None \<longrightarrow> top10 srt name df = Inl (KeyError name)
        \<and> (df_trend \<noteq> [] \<longrightarrow> snd (dashboard srt df_trend df sel name) = Raised ValueError))
   \<and> (column name \<noteq> None \<longrightarrow> (\<exists>ys. top10 srt name df = Inr ys)
        \<and> (df_trend \<noteq> [] \<longrightarrow> snd (dashboard srt df_trend df sel name) = Completed))"
  by (auto simp: top10_column metric_options_def column_metric_options dashboard_outcome
      split: option.splits)

subsection \<open>Loading\<close>

lemma load_data_absent:
  assumes "cache p = None"
    and "ml_global_prediction_csv fs = None \<or> country_insight_full_csv fs = None"
  shows "fst (load_data fs p) = Inl FileNotFoundError \<and> cache (snd (load_data fs p)) = None"
  using assms
  by (auto simp: load_data_def load_data_body_def read_csv_def split: option.splits)

lemma load_data_first:
  assumes "cache p = None"
    and "ml_global_prediction_csv fs = Some a" and "country_insight_full_csv fs = Some b"
  shows "load_data fs p
     = (Inr (a, b), p\<lparr>cache := Some (a, b),
          reads := reads p @ [''ml_global_prediction.csv'', ''country_insight_full.csv'']\<rparr>)"
  using assms by (simp add: load_data_def load_data_body_def read_csv_def)

lemma load_data_cached: "cache p = Some tables \<Longrightarrow> load_data fs p = (Inr tables, p)"
  by (simp add: load_data_def)

lemma app_absent:
  assumes "cache p = None"
    and "ml_global_prediction_csv fs = None \<or> country_insight_full_csv fs = None"
  shows "fst (app srt fs sel m p) = (page_setup @ [ErrorBox ''CSV files not found!''], Stopped)"
proof -
  obtain r p1 where l: "load_data fs p = (r, p1)" by (cases "load_data fs p")
  with load_data_absent[OF assms] have "r = Inl FileNotFoundError" by simp
  with l show ?thesis by (simp add: app_def)
qed

lemma app_cached:
  assumes "cache p = Some (a, b)"
  shows "app srt fs sel m p
     = ((page_setup @ fst (dashboard srt a b sel m), snd (dashboard srt a b sel m)), p)"
  using assms by (simp add: app_def load_data_cached split: prod.splits)

lemma app_first:
  assumes "cache p = None"
    and "ml_global_prediction_csv fs = Some a" and "country_insight_full_csv fs = Some b"
  shows "app srt fs sel m p
     = ((page_setup @ fst (dashboard srt a b sel m), snd (dashboard srt a b sel m)),
        p\<lparr>cache := Some (a, b),
          reads := reads p @ [''ml_global_prediction.csv'', ''country_insight_full.csv'']\<rparr>)"
  using assms by (simp add: app_def load_data_first split: prod.splits)

lemma snd_reruns_Cons:
  "snd (reruns srt fs ((sel, m) # later) p) = snd (reruns srt fs later (snd (app srt fs sel m p)))"
  by (simp split: prod.splits)

lemma reruns_cached:
  "cache p = Some (a, b) \<Longrightarrow> snd (reruns srt fs inputs p) = p"
proof (induction inputs)
  case Nil
  show ?case by simp
next
  case (Cons i inputs)
  obtain sel m where i: "i = (sel, m)" by (cases i)
  from Cons show ?case
    unfolding i snd_reruns_Cons by (simp add: app_cached)
qed

lemma reruns_fresh:
  assumes "ml_global_prediction_csv fs = Some a" and "country_insight_full_csv fs = Some b"
    and "inputs \<noteq> []"
  shows "snd (reruns srt fs inputs fresh_process)
     = \<lparr>cache = Some (a, b),
        reads = [''ml_global_prediction.csv'', ''country_insight_full.csv'']\<rparr>"
proof -
  from assms(3) obtain sel m later where inputs: "inputs = (sel, m) # later"
    by (cases inputs) auto
  let ?p1 = "\<lparr>cache = Some (a, b),
        reads = [''ml_global_prediction.csv'', ''country_insight_full.csv'']\<rparr>"
  have first: "snd (app srt fs sel m fresh_process) = ?p1"
    using app_first[of fresh_process fs a b srt sel m] assms(1,2)
    by (simp add: fresh_process_def)
  have "snd (reruns srt fs later ?p1) = ?p1" by (rule reruns_cached) simp
  with first show ?thesis
    unfolding inputs snd_reruns_Cons by simp
qed

text \<open>
  Claim C5. A call of \<open>load_data\<close> that finds the cache empty and one of the two files
  absent raises FileNotFoundError and caches nothing; the script then shows the error
  message after the page set-up and stops, so no part of the dashboard is shown. With both
  files present the first call reads each file once and caches the two tables; a call that
  finds the cache filled returns the cached tables and reads nothing. Hence in a process
  that started with an empty cache, after any number of runs of the script the journal holds
  one read of each file.
\<close>

theorem load_data_once_or_stop:
  "(cache p = None
      \<and> (ml_global_prediction_csv fs = None \<or> country_insight_full_csv fs = None)
      \<longrightarrow> fst (load_data fs p) = Inl FileNotFoundError
          \<and> cache (snd (load_data fs p)) = None
          \<and> fst (app srt fs sel m p)
              = (page_setup @ [ErrorBox ''CSV files not found!''], Stopped))
   \<and> (cache p = None
      \<and> ml_global_prediction_csv fs = Some a \<and> country_insight_full_csv fs = Some b
      \<longrightarrow> load_data fs p
            = (Inr (a, b), p\<lparr>cache := Some (a, b),
                 reads := reads p @ [''ml_global_prediction.csv'', ''country_insight_full.csv'']\<rparr>))
   \<and> (cache p = Some tables \<longrightarrow> load_data fs p = (Inr tables, p))
   \<and> (ml_global_prediction_csv fs = Some a \<and> country_insight_full_csv fs = Some b
      \<and> inputs \<noteq> []
      \<longrightarrow> snd (reruns srt fs inputs fresh_process)
            = \<lparr>cache = Some (a, b),
               reads = [''ml_global_prediction.csv'', ''country_insight_full.csv'']\<rparr>)"
  using load_data_absent[of p fs] app_absent[of p fs srt sel m] load_data_first[of p fs a b]
    load_data_cached[of p tables fs] reruns_fresh[of fs a b inputs srt]
  by simp

theorem load_data_once_or_stop_witness:
  "cache fresh_process = None \<and> country_insight_full_csv demo_files_no_countries = None
   \<and> fst (app insertion_sort_desc demo_files_no_countries [] ''total_cases'' fresh_process)
        = (page_setup @ [ErrorBox ''CSV files not found!''], Stopped)
   \<and> ml_global_prediction_csv demo_files = Some demo_trend
   \<and> country_insight_full_csv demo_files = Some demo_table
   \<and> snd (reruns insertion_sort_desc demo_files
            [([], ''total_cases''), ([''EU''], ''total_deaths'')] fresh_process)
        = \<lparr>cache = Some (demo_trend, demo_table),
           reads = [''ml_global_prediction.csv'', ''country_insight_full.csv'']\<rparr>"
proof -
  have h1: "cache fresh_process = None" by (simp add: fresh_process_def)
  have h2: "country_insight_full_csv demo_files_no_countries = None"
    by (simp add: demo_files_no_countries_def)
  have h3: "ml_global_prediction_csv demo_files = Some demo_trend"
    "country_insight_full_csv demo_files = Some demo_table"
    by (simp_all add: demo_files_def)
  have h4: "[([], ''total_cases''), ([''EU''], ''total_deaths'')]
      \<noteq> ([] :: (string list \<times> string) list)" by simp
  from load_data_once_or_stop[where p = fresh_process and fs = demo_files_no_countries
      and srt = insertion_sort_desc and sel = "[]" and m = "''total_cases''"] h1 h2
  have a: "fst (app insertion_sort_desc demo_files_no_countries [] ''total_cases'' fresh_process)
        = (page_setup @ [ErrorBox ''CSV files not found!''], Stopped)" by simp
  from load_data_once_or_stop[where fs = demo_files and a = demo_trend and b = demo_table
      and srt = insertion_sort_desc
      and inputs = "[([], ''total_cases''), ([''EU''], ''total_deaths'')]"] h3 h4
  have b: "snd (reruns insertion_sort_desc demo_files
            [([], ''total_cases''), ([''EU''], ''total_deaths'')] fresh_process)
        = \<lparr>cache = Some (demo_trend, demo_table),
           reads = [''ml_global_prediction.csv'', ''country_insight_full.csv'']\<rparr>" by simp
  from h1 h2 h3 a b show ?thesis by simp
qed

subsection \<open>Reruns\<close>

text \<open>
  With both files present and the cache empty or holding those files' tables, a run of the
  script shows exactly what \<open>dashboard\<close> computes from the tables and the two widget
  values, whatever else the process state holds, and running the script again with the same
  inputs shows the same page and leaves the process state as the first run left it.
\<close>

lemma rerun_same_page:
  assumes "ml_global_prediction_csv fs = Some df_trend"
    and "country_insight_full_csv fs = Some df_countries"
    and "cache p = None \<or> cache p = Some (df_trend, df_countries)"
  shows "fst (app srt fs sel m p)
           = (page_setup @ fst (dashboard srt df_trend df_countries sel m),
              snd (dashboard srt df_trend df_countries sel m))
       \<and> fst (app srt fs sel m (snd (app srt fs sel m p))) = fst (app srt fs sel m p)
       \<and> snd (app srt fs sel m (snd (app srt fs sel m p))) = snd (app srt fs sel m p)"
proof -
  have one: "fst (app srt fs sel m q)
           = (page_setup @ fst (dashboard srt df_trend df_countries sel m),
              snd (dashboard srt df_trend df_countries sel m))
       \<and> cache (snd (app srt fs sel m q)) = Some (df_trend, df_countries)"
    if "cache q = None \<or> cache q = Some (df_trend, df_countries)" for q
  proof (cases "cache q")
    case None
    from app_first[OF None assms(1,2)] show ?thesis by simp
  next
    case (Some t)
    with that have "cache q = Some (df_trend, df_countries)" by simp
    from app_cached[OF this] this show ?thesis by simp
  qed
  let ?p1 = "snd (app srt fs sel m p)"
  from one[OF assms(3)] have c: "cache ?p1 = Some (df_trend, df_countries)"
    by simp
  have same_state: "snd (app srt fs sel m ?p1) = ?p1"
    using app_cached[OF c] by simp
  from one[OF assms(3)] one[of ?p1] c same_state show ?thesis by simp
qed

lemma demo_dashboard_completes:
  "snd (dashboard insertion_sort_desc demo_trend demo_table [''EU''] ''total_cases'') = Completed"
  by code_simp

lemma rerun_same_page_demo:
  "ml_global_prediction_csv demo_files = Some demo_trend
   \<and> country_insight_full_csv demo_files = Some demo_table
   \<and> cache fresh_process = None
   \<and> fst (app insertion_sort_desc demo_files [''EU''] ''total_cases''
        (snd (app insertion_sort_desc demo_files [''EU''] ''total_cases'' fresh_process)))
     = fst (app insertion_sort_desc demo_files [''EU''] ''total_cases'' fresh_process)
   \<and> snd (fst (app insertion_sort_desc demo_files [''EU''] ''total_cases'' fresh_process))
     = Completed"
proof -
  have h1: "ml_global_prediction_csv demo_files = Some demo_trend"
    and h2: "country_insight_full_csv demo_files = Some demo_table"
    by (simp_all add: demo_files_def)
  have h3: "cache fresh_process = None" by (simp add: fresh_process_def)
  then have h3': "cache fresh_process = None \<or> cache fresh_process = Some (demo_trend, demo_table)"
    by simp
  from rerun_same_page[OF h1 h2 h3', where srt = insertion_sort_desc and sel = "[''EU'']"
      and m = "''total_cases''"] h1 h2 h3 demo_dashboard_completes
  show ?thesis by simp
qed

subsection \<open>The source table\<close>

lemma new_frame_simps:
  "fst (new_frame rows s) = next_ref s"
  "frames (snd (new_frame rows s)) r = (if r = next_ref s then rows else frames s r)"
  "next_ref (snd (new_frame rows s)) = Suc (next_ref s)"
  by (simp_all add: new_frame_def)

lemma top10_ref_frame:
  "r < next_ref s \<Longrightarrow> frames (snd (top10_ref srt m df s)) r = frames s r"
  by (simp add: top10_ref_def new_frame_def split: sum.splits)

lemma top10_ref_value:
  "(case fst (top10_ref srt m df s) of
      Inl e \<Rightarrow> top10 srt m (frames s df) = Inl e
    | Inr t \<Rightarrow> top10 srt m (frames s df) = Inr (frames (snd (top10_ref srt m df s)) t))"
  by (simp add: top10_ref_def top10_def new_frame_def split: sum.splits)

text \<open>
  Claim C8. Filtering leaves the object behind \<open>df_countries\<close> as it was, for every
  selection, and so does the ranking that follows, although with an empty selection the
  filtered table is that very object: every reference that existed before holds the same
  rows afterwards. The filtered rows are those of \<open>df_filtered\<close>, at a new reference
  when the selection is not empty.
\<close>

theorem filter_leaves_source_unchanged:
  fixes s :: store and sel :: "string list" and df_countries :: nat and srt :: sorter
    and m :: string
  defines "filtered \<equiv> df_filtered_ref sel df_countries s"
  defines "ranked \<equiv> top10_ref srt m (fst filtered) (snd filtered)"
  assumes "df_countries < next_ref s"
  shows "frames (snd filtered) df_countries = frames s df_countries
       \<and> frames (snd ranked) df_countries = frames s df_countries
       \<and> (\<forall>r<next_ref s. frames (snd ranked) r = frames s r)
       \<and> frames (snd filtered) (fst filtered) = df_filtered sel (frames s df_countries)
       \<and> (sel = [] \<longrightarrow> fst filtered = df_countries \<and> snd filtered = s)
       \<and> (sel \<noteq> [] \<longrightarrow> fst filtered \<noteq> df_countries)"
proof -
  have a: "frames (snd filtered) r = frames s r" if "r < next_ref s" for r
    using that by (simp add: filtered_def df_filtered_ref_def new_frame_def)
  have n: "next_ref s \<le> next_ref (snd filtered)"
    by (simp add: filtered_def df_filtered_ref_def new_frame_def)
  have b: "frames (snd ranked) r = frames s r" if "r < next_ref s" for r
  proof -
    from that n have "r < next_ref (snd filtered)" by simp
    then have "frames (snd ranked) r = frames (snd filtered) r"
      unfolding ranked_def by (rule top10_ref_frame)
    with a[OF that] show ?thesis by simp
  qed
  have c: "frames (snd filtered) (fst filtered) = df_filtered sel (frames s df_countries)"
    by (simp add: filtered_def df_filtered_ref_def df_filtered_def new_frame_def)
  have d: "sel = [] \<longrightarrow> fst filtered = df_countries \<and> snd filtered = s"
    by (simp add: filtered_def df_filtered_ref_def)
  have e: "sel \<noteq> [] \<longrightarrow> fst filtered \<noteq> df_countries"
    using assms(3) by (simp add: filtered_def df_filtered_ref_def new_frame_def)
  from a[OF assms(3)] b[OF assms(3)] b c d e show ?thesis by simp
qed

theorem filter_leaves_source_unchanged_witness:
  "0 < next_ref demo_store
   \<and> frames (snd (df_filtered_ref [] 0 demo_store)) 0 = demo_table
   \<and> frames (snd (df_filtered_ref [''EU''] 0 demo_store)) 0 = demo_table
   \<and> frames (snd (top10_ref insertion_sort_desc ''total_cases''
        (fst (df_filtered_ref [] 0 demo_store)) (snd (df_filtered_ref [] 0 demo_store)))) 0
       = demo_table
   \<and> fst (df_filtered_ref [] 0 demo_store) = 0
   \<and> fst (df_filtered_ref [''EU''] 0 demo_store) \<noteq> 0"
proof -
  have h: "0 < next_ref demo_store" by (simp add: demo_store_def)
  have f0: "frames demo_store 0 = demo_table" by (simp add: demo_store_def)
  note empty = filter_leaves_source_unchanged[OF h, where sel = "[]"
      and srt = insertion_sort_desc and m = "''total_cases''"]
  note eu = filter_leaves_source_unchanged[OF h, where sel = "[''EU'']"
      and srt = insertion_sort_desc and m = "''total_cases''"]
  have a: "frames (snd (df_filtered_ref [] 0 demo_store)) 0 = demo_table"
    using empty[THEN conjunct1] f0 by simp
  have b: "frames (snd (df_filtered_ref [''EU''] 0 demo_store)) 0 = demo_table"
    using eu[THEN conjunct1] f0 by simp
  have c: "frames (snd (top10_ref insertion_sort_desc ''total_cases''
        (fst (df_filtered_ref [] 0 demo_store)) (snd (df_filtered_ref [] 0 demo_store)))) 0
       = demo_table"
    using empty[THEN conjunct2, THEN conjunct1] f0 by simp
  have d: "fst (df_filtered_ref [] 0 demo_store) = 0"
    using empty by simp
  have e: "fst (df_filtered_ref [''EU''] 0 demo_store) \<noteq> 0"
    using eu by simp
  from h a b c d e show ?thesis by (intro conjI)
qed

subsection \<open>Purity\<close>

lemma filtered_rows_ref:
  "filtered_rows (df_filtered_ref sel df s) = df_filtered sel (frames s df)"
  by (simp add: filtered_rows_def df_filtered_ref_def df_filtered_def new_frame_def)

lemma df_filtered_ref_old_frames:
  "r < next_ref s \<Longrightarrow> frames (snd (df_filtered_ref sel df s)) r = frames s r"
  by (simp add: df_filtered_ref_def new_frame_def)

lemma ranked_rows_ref: "ranked_rows (top10_ref srt m df s) = top10 srt m (frames s df)"
  by (simp add: ranked_rows_def top10_ref_def top10_def new_frame_def split: sum.splits)

lemma summarize_ref_value: "summarize_ref df s = (summarize (frames s df), s)"
  by (simp add: summarize_ref_def summarize_def Let_def split: sum.splits)

text \<open>
  Claim C7. Run on tables kept as objects in a store, the filter, the summary and the top
  ten give rows and values that depend on nothing but the rows of the table they are
  given, the selection and the metric: they are \<open>df_filtered\<close>, \<open>summarize\<close> and
  \<open>top10\<close> of those rows; the same rows at another reference of another store give the
  same; and a second invocation, in the store the first one left, gives the same again. The
  store's counter only numbers the table an operation builds.
\<close>

theorem operations_depend_on_inputs_only:
  assumes "df < next_ref s" and "frames s' df' = frames s df"
  shows "filtered_rows (df_filtered_ref sel df s) = df_filtered sel (frames s df)
       \<and> filtered_rows (df_filtered_ref sel df' s') = filtered_rows (df_filtered_ref sel df s)
       \<and> filtered_rows (df_filtered_ref sel df (snd (df_filtered_ref sel df s)))
           = filtered_rows (df_filtered_ref sel df s)
       \<and> fst (summarize_ref df s) = summarize (frames s df)
       \<and> fst (summarize_ref df' s') = fst (summarize_ref df s)
       \<and> summarize_ref df (snd (summarize_ref df s)) = summarize_ref df s
       \<and> ranked_rows (top10_ref srt m df s) = top10 srt m (frames s df)
       \<and> ranked_rows (top10_ref srt m df' s') = ranked_rows (top10_ref srt m df s)
       \<and> ranked_rows (top10_ref srt m df (snd (top10_ref srt m df s)))
           = ranked_rows (top10_ref srt m df s)"
proof -
  have f2: "filtered_rows (df_filtered_ref sel df' s') = filtered_rows (df_filtered_ref sel df s)"
    by (simp add: filtered_rows_ref assms(2))
  have "frames (snd (df_filtered_ref sel df s)) df = frames s df"
    using assms(1) by (rule df_filtered_ref_old_frames)
  then have f3: "filtered_rows (df_filtered_ref sel df (snd (df_filtered_ref sel df s)))
           = filtered_rows (df_filtered_ref sel df s)"
    by (simp add: filtered_rows_ref)
  have s2: "fst (summarize_ref df' s') = fst (summarize_ref df s)"
    by (simp add: summarize_ref_value assms(2))
  have r2: "ranked_rows (top10_ref srt m df' s') = ranked_rows (top10_ref srt m df s)"
    by (simp add: ranked_rows_ref assms(2))
  have "frames (snd (top10_ref srt m df s)) df = frames s df"
    using assms(1) by (rule top10_ref_frame)
  then have r3: "ranked_rows (top10_ref srt m df (snd (top10_ref srt m df s)))
           = ranked_rows (top10_ref srt m df s)"
    by (simp add: ranked_rows_ref)
  from f2 f3 s2 r2 r3 show ?thesis
    by (simp add: filtered_rows_ref ranked_rows_ref summarize_ref_value)
qed

theorem operations_depend_on_inputs_only_witness:
  "0 < next_ref demo_store \<and> frames demo_store_copy 3 = frames demo_store 0
   \<and> fst (df_filtered_ref [''EU''] 0 demo_store) \<noteq> fst (df_filtered_ref [''EU''] 3 demo_store_copy)
   \<and> filtered_rows (df_filtered_ref [''EU''] 0 demo_store) = [demo_eu_100, demo_eu_50]
   \<and> filtered_rows (df_filtered_ref [''EU''] 3 demo_store_copy) = [demo_eu_100, demo_eu_50]
   \<and> filtered_rows (df_filtered_ref [''EU''] 0 (snd (df_filtered_ref [''EU''] 0 demo_store)))
       = [demo_eu_100, demo_eu_50]
   \<and> fst (summarize_ref 3 demo_store_copy) = fst (summarize_ref 0 demo_store)
   \<and> ranked_rows (top10_ref insertion_sort_desc ''total_cases'' 3 demo_store_copy)
       = Inr [demo_as_200, demo_eu_100, demo_eu_50]
   \<and> ranked_rows (top10_ref insertion_sort_desc ''total_cases'' 0
         (snd (top10_ref insertion_sort_desc ''total_cases'' 0 demo_store)))
       = Inr [demo_as_200, demo_eu_100, demo_eu_50]"
proof -
  have h1: "0 < next_ref demo_store" by (simp add: demo_store_def)
  have h2: "frames demo_store_copy 3 = frames demo_store 0"
    by (simp add: demo_store_def demo_store_copy_def)
  have f0: "frames demo_store 0 = demo_table" by (simp add: demo_store_def)
  have refs: "fst (df_filtered_ref [''EU''] 0 demo_store)
      \<noteq> fst (df_filtered_ref [''EU''] 3 demo_store_copy)"
    by (simp add: df_filtered_ref_def new_frame_def demo_store_def demo_store_copy_def)
  have ev: "df_filtered [''EU''] demo_table = [demo_eu_100, demo_eu_50]"
    by (simp add: demo_defs df_filtered_def isin_def)
  note t = operations_depend_on_inputs_only[OF h1 h2, where sel = "[''EU'']"
      and srt = insertion_sort_desc and m = "''total_cases''"]
  have a: "filtered_rows (df_filtered_ref [''EU''] 0 demo_store) = [demo_eu_100, demo_eu_50]"
    using t[THEN conjunct1] by (simp add: f0 ev)
  have b: "filtered_rows (df_filtered_ref [''EU''] 3 demo_store_copy) = [demo_eu_100, demo_eu_50]"
    using t[THEN conjunct2, THEN conjunct1] a by simp
  have c: "filtered_rows (df_filtered_ref [''EU''] 0 (snd (df_filtered_ref [''EU''] 0 demo_store)))
       = [demo_eu_100, demo_eu_50]"
    using t[THEN conjunct2, THEN conjunct2, THEN conjunct1] a by simp
  have d: "fst (summarize_ref 3 demo_store_copy) = fst (summarize_ref 0 demo_store)"
    using t by (elim conjE)
  have e0: "ranked_rows (top10_ref insertion_sort_desc ''total_cases'' 0 demo_store)
       = Inr [demo_as_200, demo_eu_100, demo_eu_50]"
    using t by (elim conjE) (simp add: f0 top10_demo_total_cases)
  have e: "ranked_rows (top10_ref insertion_sort_desc ''total_cases'' 3 demo_store_copy)
       = Inr [demo_as_200, demo_eu_100, demo_eu_50]"
    using t e0 by (elim conjE) simp
  have f: "ranked_rows (top10_ref insertion_sort_desc ''total_cases'' 0
         (snd (top10_ref insertion_sort_desc ''total_cases'' 0 demo_store)))
       = Inr [demo_as_200, demo_eu_100, demo_eu_50]"
    using t e0 by (elim conjE) simp
  from h1 h2 refs a b c d e f show ?thesis by (intro conjI)
qed

end
